theory Spec2Isabelle
  imports Complex_Main "HOL-Library.List_Lexorder" "HOL-Library.Char_ord"
begin

section \<open>The shared HTTP access layer of the SEC tools\<close>

text \<open>
  This theory embeds \<^verbatim>\<open>flow_researcher/tools/sec_http_client.py\<close>: the sliding-window
  \<^verbatim>\<open>RateLimiter\<close>, the file-based \<^verbatim>\<open>SimpleCache\<close> and the \<^verbatim>\<open>SECHttpClient\<close> that
  composes them. Python exceptions are values of \<open>py_error\<close>; a function that may raise
  returns a sum whose left side is the exception, paired with the state it leaves behind
  where the source mutates an object or the file system. Wall-clock time
  (\<^verbatim>\<open>time.time()\<close>) is a real number that the caller of each model function supplies, so
  that every run is a function of the clock readings it observed.
\<close>

subsection \<open>Exceptions\<close>

text \<open>
  \<open>request_exception\<close> stands for the subclasses of \<^verbatim>\<open>requests.exceptions.RequestException\<close>
  that the client catches: \<open>HTTPError\<close> is what \<^verbatim>\<open>raise_for_status()\<close> raises for a
  status in 400..599, \<open>RetryError\<close> what the session raises when its retries are
  exhausted, \<open>TransportError\<close> any other failure of the connection. \<open>RequestFailed e\<close> is
  \<^verbatim>\<open>Exception(f"HTTP request failed: {e}")\<close> and \<open>DownloadFailed e\<close> is
  \<^verbatim>\<open>Exception(f"Download failed: {e}")\<close>. \<open>OSError\<close> covers its subclasses; \<^verbatim>\<open>IOError\<close> is
  the same class in Python 3.
\<close>

datatype request_exception = HTTPError int | RetryError | TransportError string

datatype py_error =
    ZeroDivisionError
  | IndexError
  | AttributeError
  | TypeError
  | OSError
  | RequestFailed request_exception
  | DownloadFailed request_exception

subsection \<open>RateLimiter\<close>

record RateLimiter =
  max_rps :: real
  min_interval :: real
  request_times :: "real list"

definition RateLimiter_init :: "real \<Rightarrow> py_error + RateLimiter" where
  "RateLimiter_init max_requests_per_second =
     (if max_requests_per_second = 0 then Inl ZeroDivisionError
      else Inr \<lparr>max_rps = max_requests_per_second,
                min_interval = 1 / max_requests_per_second,
                request_times = []\<rparr>)"

text \<open>
  The loop \<^verbatim>\<open>while self.request_times and now - self.request_times[0] > 1.0: popleft()\<close>.
\<close>

fun purge :: "real \<Rightarrow> real list \<Rightarrow> real list" where
  "purge now [] = []"
| "purge now (t # ts) = (if now - t > 1 then purge now ts else t # ts)"

text \<open>
  \<^verbatim>\<open>wait_if_needed\<close>. The first \<^verbatim>\<open>time.time()\<close> reads \<open>now\<close>. When the method sleeps,
  \<^verbatim>\<open>time.sleep(sleep_time)\<close> followed by \<^verbatim>\<open>time.time()\<close> reads \<open>now + sleep_time + late\<close>,
  where \<open>late\<close> is how much later than requested the sleep returned. Indexing the empty
  deque raises \<^verbatim>\<open>IndexError\<close>. The result is the timestamp that was appended, which is the
  time at which the call completes, or the exception raised, together with the limiter as
  the call left it.
\<close>

definition wait_if_needed :: "RateLimiter \<Rightarrow> real \<Rightarrow> real \<Rightarrow> (py_error + real) \<times> RateLimiter" where
  "wait_if_needed rl now late =
     (let q = purge now (request_times rl) in
      if real (length q) \<ge> max_rps rl then
        (case q of
           [] \<Rightarrow> (Inl IndexError, rl\<lparr>request_times := q\<rparr>)
         | oldest # _ \<Rightarrow>
             let sleep_time = 1 - (now - oldest) in
             if sleep_time > 0 then
               let now' = now + sleep_time + late;
                   q' = purge now' q
               in (Inr now', rl\<lparr>request_times := q' @ [now']\<rparr>)
             else (Inr now, rl\<lparr>request_times := q @ [now]\<rparr>))
      else (Inr now, rl\<lparr>request_times := q @ [now]\<rparr>))"






subsection \<open>JSON values and the library functions the module calls\<close>

text \<open>
  A value that \<^verbatim>\<open>json.load\<close> returns or \<^verbatim>\<open>json.dump\<close> accepts. \<open>JNull\<close> is Python's \<^verbatim>\<open>None\<close>;
  a \<^verbatim>\<open>dict\<close> is the list of its items in insertion order.
\<close>

datatype json =
    JNull
  | JBool bool
  | JNum real
  | JStr string
  | JArr "json list"
  | JObj "(string \<times> json) list"

text \<open>
  The functions of the standard library and of \<^verbatim>\<open>pathlib\<close> that the module relies on are
  parameters of the model: \<open>md5_hexdigest\<close> is \<^verbatim>\<open>hashlib.md5(key.encode()).hexdigest()\<close>,
  \<open>json_text\<close> the text \<^verbatim>\<open>json.dumps\<close> writes for a value whose items are taken in the order
  given, \<open>json_parse\<close> is \<^verbatim>\<open>json.loads\<close> (\<open>None\<close> when it raises \<^verbatim>\<open>JSONDecodeError\<close>),
  \<open>path_str\<close> is \<^verbatim>\<open>str(Path(p))\<close>, \<open>path_absolute\<close> is \<^verbatim>\<open>str(Path(p).absolute())\<close> and
  \<open>path_parents\<close> lists the ancestor directories of \<^verbatim>\<open>Path(p)\<close>, outermost first, so that
  the last one is \<^verbatim>\<open>Path(p).parent\<close>.
\<close>

record pylib =
  md5_hexdigest :: "string \<Rightarrow> string"
  json_text :: "json \<Rightarrow> string"
  json_parse :: "string \<Rightarrow> json option"
  path_str :: "string \<Rightarrow> string"
  path_absolute :: "string \<Rightarrow> string"
  path_parents :: "string \<Rightarrow> string list"

text \<open>\<^verbatim>\<open>sort_keys=True\<close>: the items of every object are written in the order of their keys.\<close>

fun sort_items :: "json \<Rightarrow> json" where
  "sort_items (JArr vs) = JArr (map sort_items vs)"
| "sort_items (JObj kvs) = JObj (sort_key fst (map (\<lambda>(k, v). (k, sort_items v)) kvs))"
| "sort_items v = v"

definition json_dumps :: "pylib \<Rightarrow> bool \<Rightarrow> json \<Rightarrow> string" where
  "json_dumps lib sort_keys v = json_text lib (if sort_keys then sort_items v else v)"

text \<open>
  Values that are equal up to the order in which the items of their objects were
  inserted, at any depth; \<open>wf_json\<close> says that no object holds a key twice, as is the case
  for every Python \<^verbatim>\<open>dict\<close>.
\<close>

fun wf_json :: "json \<Rightarrow> bool" where
  "wf_json (JArr vs) = list_all wf_json vs"
| "wf_json (JObj kvs) = (distinct (map fst kvs) \<and> list_all (\<lambda>(k, v). wf_json v) kvs)"
| "wf_json v = True"

fun same_items :: "json \<Rightarrow> json \<Rightarrow> bool" where
  "same_items (JArr xs) (JArr ys) = list_all2 same_items xs ys"
| "same_items (JObj xs) (JObj ys) =
     (set (map fst xs) = set (map fst ys) \<and>
      list_all (\<lambda>(k, v). case map_of ys k of None \<Rightarrow> False | Some v' \<Rightarrow> same_items v v') xs)"
| "same_items a b = (a = b)"

text \<open>\<^verbatim>\<open>d.get(k, default)\<close>; a value that is not a \<^verbatim>\<open>dict\<close> has no \<^verbatim>\<open>get\<close>.\<close>

fun dict_get :: "json \<Rightarrow> string \<Rightarrow> json \<Rightarrow> py_error + json" where
  "dict_get (JObj kvs) k dflt = Inr (case map_of kvs k of None \<Rightarrow> dflt | Some v \<Rightarrow> v)"
| "dict_get _ k dflt = Inl AttributeError"

text \<open>\<^verbatim>\<open>x > y\<close> for a float \<open>x\<close>: defined against numbers and booleans only.\<close>

fun float_gt :: "real \<Rightarrow> json \<Rightarrow> py_error + bool" where
  "float_gt x (JNum y) = Inr (x > y)"
| "float_gt x (JBool b) = Inr (x > (if b then 1 else 0))"
| "float_gt x _ = Inl TypeError"

subsection \<open>The file system and the network\<close>

datatype fs_node = Dir | Unreadable | Text string

record request =
  req_url :: string
  req_headers :: "(string \<times> string) list"
  req_params :: "(string \<times> json) list option"
  req_timeout :: int
  req_stream :: bool

text \<open>
  A response as the client sees it. \<open>stream_break\<close> only matters for a streamed download:
  \<open>Some n\<close> means that the connection fails after \<open>n\<close> chunks have been delivered.
\<close>

record response =
  status_code :: int
  headers :: "(string \<times> string) list"
  content :: string
  stream_break :: "nat option"

datatype net_result = Responded response | RequestException request_exception

text \<open>
  The world outside the client: the files by path, the paths that cannot be opened for
  writing, and the log of the requests handed to the session, in order.
\<close>

record world =
  files :: "string \<rightharpoonup> fs_node"
  unwritable :: "string \<Rightarrow> bool"
  net_log :: "request list"

datatype load_error = IOError | JSONDecodeError

text \<open>\<^verbatim>\<open>with open(path, 'r') as f: json.load(f)\<close> on an existing path.\<close>

fun json_load :: "pylib \<Rightarrow> fs_node \<Rightarrow> load_error + json" where
  "json_load lib Dir = Inl IOError"
| "json_load lib Unreadable = Inl IOError"
| "json_load lib (Text s) = (case json_parse lib s of None \<Rightarrow> Inl JSONDecodeError | Some v \<Rightarrow> Inr v)"

definition unlink :: "string \<Rightarrow> world \<Rightarrow> py_error + world" where
  "unlink path w =
     (case files w path of
        None \<Rightarrow> Inl OSError
      | Some Dir \<Rightarrow> Inl OSError
      | Some _ \<Rightarrow> Inr (w\<lparr>files := (files w)(path := None)\<rparr>))"

text \<open>Opening a path for writing and storing new content there.\<close>

definition write_file :: "string \<Rightarrow> string \<Rightarrow> world \<Rightarrow> py_error + world" where
  "write_file path text w =
     (if unwritable w path \<or> files w path = Some Dir then Inl OSError
      else Inr (w\<lparr>files := (files w)(path \<mapsto> Text text)\<rparr>))"

text \<open>\<^verbatim>\<open>mkdir(parents=True, exist_ok=True)\<close> along a chain of directories.\<close>

fun mkdir_all :: "string list \<Rightarrow> world \<Rightarrow> py_error + world" where
  "mkdir_all [] w = Inr w"
| "mkdir_all (d # ds) w =
     (case files w d of
        None \<Rightarrow> (if unwritable w d then Inl OSError
                 else mkdir_all ds (w\<lparr>files := (files w)(d \<mapsto> Dir)\<rparr>))
      | Some Dir \<Rightarrow> mkdir_all ds w
      | Some _ \<Rightarrow> Inl OSError)"

subsection \<open>SimpleCache\<close>

record SimpleCache =
  cache_dir :: string

definition SimpleCache_init :: "pylib \<Rightarrow> string \<Rightarrow> string option \<Rightarrow> world
                                 \<Rightarrow> py_error + (SimpleCache \<times> world)" where
  "SimpleCache_init lib home dir w =
     (let d = (case dir of None \<Rightarrow> home @ ''/.sec_tools_cache'' | Some d \<Rightarrow> d) in
      case mkdir_all (path_parents lib d @ [path_str lib d]) w of
        Inl e \<Rightarrow> Inl e
      | Inr w' \<Rightarrow> Inr (\<lparr>cache_dir = path_str lib d\<rparr>, w'))"

definition get_cache_path :: "pylib \<Rightarrow> SimpleCache \<Rightarrow> string \<Rightarrow> string" where
  "get_cache_path lib c key = cache_dir c @ ''/'' @ md5_hexdigest lib key @ ''.json''"

text \<open>
  \<^verbatim>\<open>SimpleCache.get\<close> at clock reading \<open>now\<close>. The handler catches \<^verbatim>\<open>JSONDecodeError\<close> and
  \<^verbatim>\<open>IOError\<close> only; what \<^verbatim>\<open>cached.get\<close> and the comparison raise leaves the method.
\<close>

definition cache_get :: "pylib \<Rightarrow> SimpleCache \<Rightarrow> string \<Rightarrow> real \<Rightarrow> world
                          \<Rightarrow> (py_error + json) \<times> world" where
  "cache_get lib c key now w =
     (let cache_path = get_cache_path lib c key in
      case files w cache_path of
        None \<Rightarrow> (Inr JNull, w)
      | Some f \<Rightarrow>
          (case json_load lib f of
             Inl _ \<Rightarrow>
               (case unlink cache_path w of
                  Inl e \<Rightarrow> (Inl e, w)
                | Inr w' \<Rightarrow> (Inr JNull, w'))
           | Inr cached \<Rightarrow>
               (case dict_get cached ''expires_at'' (JNum 0) of
                  Inl e \<Rightarrow> (Inl e, w)
                | Inr expires_at \<Rightarrow>
                    (case float_gt now expires_at of
                       Inl e \<Rightarrow> (Inl e, w)
                     | Inr True \<Rightarrow>
                         (case unlink cache_path w of
                            Inl e \<Rightarrow> (Inl e, w)
                          | Inr w' \<Rightarrow> (Inr JNull, w'))
                     | Inr False \<Rightarrow>
                         (case dict_get cached ''value'' JNull of
                            Inl e \<Rightarrow> (Inl e, w)
                          | Inr v \<Rightarrow> (Inr v, w))))))"

text \<open>\<^verbatim>\<open>SimpleCache.set\<close> at clock reading \<open>now\<close>; a failure to write is swallowed.\<close>

definition cache_set :: "pylib \<Rightarrow> SimpleCache \<Rightarrow> string \<Rightarrow> json \<Rightarrow> int \<Rightarrow> real \<Rightarrow> world \<Rightarrow> world" where
  "cache_set lib c key v ttl_seconds now w =
     (let cache_path = get_cache_path lib c key;
          cached = JObj [(''value'', v), (''expires_at'', JNum (now + of_int ttl_seconds))]
      in case write_file cache_path (json_dumps lib False cached) w of
           Inl _ \<Rightarrow> w
         | Inr w' \<Rightarrow> w')"

subsection \<open>Request headers\<close>

text \<open>
  \<^verbatim>\<open>session.headers\<close> is a \<^verbatim>\<open>CaseInsensitiveDict\<close>: keys are compared after \<^verbatim>\<open>lower()\<close>, and
  storing under a key that is already present replaces that item, key and value, where
  it stands.
\<close>

definition lower_char :: "char \<Rightarrow> char" where
  "lower_char c =
     (case map_of (zip ''ABCDEFGHIJKLMNOPQRSTUVWXYZ'' ''abcdefghijklmnopqrstuvwxyz'') c of
        None \<Rightarrow> c
      | Some d \<Rightarrow> d)"

definition upper_char :: "char \<Rightarrow> char" where
  "upper_char c =
     (case map_of (zip ''abcdefghijklmnopqrstuvwxyz'' ''ABCDEFGHIJKLMNOPQRSTUVWXYZ'') c of
        None \<Rightarrow> c
      | Some d \<Rightarrow> d)"

definition lower :: "string \<Rightarrow> string" where
  "lower s = map lower_char s"

definition upper :: "string \<Rightarrow> string" where
  "upper s = map upper_char s"

fun ci_set :: "string \<Rightarrow> string \<Rightarrow> (string \<times> string) list \<Rightarrow> (string \<times> string) list" where
  "ci_set k v [] = [(k, v)]"
| "ci_set k v ((k', v') # hs) =
     (if lower k' = lower k then (k, v) # hs else (k', v') # ci_set k v hs)"

fun ci_get :: "string \<Rightarrow> (string \<times> string) list \<Rightarrow> string option" where
  "ci_get k [] = None"
| "ci_get k ((k', v') # hs) = (if lower k' = lower k then Some v' else ci_get k hs)"

fun ci_update :: "(string \<times> string) list \<Rightarrow> (string \<times> string) list \<Rightarrow> (string \<times> string) list" where
  "ci_update hs [] = hs"
| "ci_update hs ((k, v) # new) = ci_update (ci_set k v hs) new"

subsection \<open>The retry policy of the session\<close>

text \<open>
  The client mounts \<^verbatim>\<open>HTTPAdapter(max_retries=Retry(total=3, backoff_factor=1,
  status_forcelist=[429, 500, 502, 503, 504], allowed_methods=["GET", "HEAD"]))\<close>. The
  record holds the fields of \<^verbatim>\<open>urllib3.util.retry.Retry\<close> that this configuration sets or
  that its methods read; the counters the client leaves at \<^verbatim>\<open>None\<close> take no part.
  \<open>history\<close> counts the failed attempts so far.
\<close>

record Retry =
  total :: int
  backoff_factor :: real
  status_forcelist :: "int list"
  allowed_methods :: "string list"
  respect_retry_after_header :: bool
  raise_on_status :: bool
  history :: nat

definition retry_strategy :: Retry where
  "retry_strategy =
     \<lparr>total = 3, backoff_factor = 1, status_forcelist = [429, 500, 502, 503, 504],
      allowed_methods = [''GET'', ''HEAD''], respect_retry_after_header = True,
      raise_on_status = True, history = 0\<rparr>"

text \<open>
  What the server sends to one attempt: the response, and the delay that its
  \<^verbatim>\<open>Retry-After\<close> header asks for, if it carries one.
\<close>

record attempt =
  reply :: response
  retry_after :: "real option"

text \<open>
  \<^verbatim>\<open>Retry._is_method_retryable\<close>, \<^verbatim>\<open>Retry.is_retry\<close>, \<^verbatim>\<open>Retry.increment\<close> for a response
  that came back, \<^verbatim>\<open>Retry.is_exhausted\<close> (which drops the counters that are \<^verbatim>\<open>None\<close> or
  \<open>0\<close> before it looks for a negative one) and \<^verbatim>\<open>Retry.get_backoff_time\<close>.
\<close>

definition is_method_retryable :: "Retry \<Rightarrow> string \<Rightarrow> bool" where
  "is_method_retryable r verb \<longleftrightarrow>
     \<not> (allowed_methods r \<noteq> [] \<and> upper verb \<notin> set (allowed_methods r))"

definition is_retry :: "Retry \<Rightarrow> string \<Rightarrow> int \<Rightarrow> bool \<Rightarrow> bool" where
  "is_retry r verb status has_retry_after =
     (if \<not> is_method_retryable r verb then False
      else if status_forcelist r \<noteq> [] \<and> status \<in> set (status_forcelist r) then True
      else total r \<noteq> 0 \<and> respect_retry_after_header r \<and> has_retry_after \<and>
           status \<in> set [413, 429, 503])"

definition increment :: "Retry \<Rightarrow> Retry" where
  "increment r = r\<lparr>total := total r - 1, history := Suc (history r)\<rparr>"

definition is_exhausted :: "Retry \<Rightarrow> bool" where
  "is_exhausted r =
     (let retry_counts = filter (\<lambda>x. x \<noteq> 0) [total r] in
      if retry_counts = [] then False else Min (set retry_counts) < 0)"

definition get_backoff_time :: "Retry \<Rightarrow> real" where
  "get_backoff_time r =
     (if history r \<le> 1 then 0 else min 120 (backoff_factor r * 2 ^ (history r - 1)))"

definition sleep_for :: "Retry \<Rightarrow> attempt \<Rightarrow> real" where
  "sleep_for r a =
     (case (if respect_retry_after_header r then retry_after a else None) of
        Some d \<Rightarrow> d
      | None \<Rightarrow> get_backoff_time r)"

text \<open>
  The loop of \<^verbatim>\<open>HTTPConnectionPool.urlopen\<close> over the answers of the server, for attempts
  that all come back with a response. \<open>server i\<close> is the answer to attempt number \<open>i\<close>,
  counted from \<open>0\<close>. The result is the response handed back or the error raised, the
  number of attempts made, and the sleeps taken between them.
\<close>

function urlopen :: "Retry \<Rightarrow> string \<Rightarrow> (nat \<Rightarrow> attempt) \<Rightarrow> nat \<Rightarrow> real list
                      \<Rightarrow> (request_exception + response) \<times> nat \<times> real list" where
  "urlopen r verb server i sleeps =
     (let a = server i in
      if is_retry r verb (status_code (reply a)) (retry_after a \<noteq> None) then
        (if is_exhausted (increment r) then
           (if raise_on_status r then (Inl RetryError, Suc i, sleeps)
            else (Inr (reply a), Suc i, sleeps))
         else urlopen (increment r) verb server (Suc i) (sleeps @ [sleep_for (increment r) a]))
      else (Inr (reply a), Suc i, sleeps))"
  by pat_completeness auto
termination
  by (relation "measure (\<lambda>(r, verb, server, i, sleeps). nat (total r + 1))")
     (auto simp: is_exhausted_def increment_def Let_def split: if_splits)

declare urlopen.simps [simp del]

text \<open>
  \<^verbatim>\<open>session.get\<close> through the mounted adapter: one \<^verbatim>\<open>urlopen\<close> with the adapter's retry
  policy and the method \<^verbatim>\<open>GET\<close>; an exhausted policy surfaces as \<^verbatim>\<open>RetryError\<close>, which is a
  \<^verbatim>\<open>RequestException\<close>.
\<close>

definition session_get :: "Retry \<Rightarrow> (request \<Rightarrow> nat \<Rightarrow> attempt) \<Rightarrow> request \<Rightarrow> net_result" where
  "session_get retries server req =
     (case urlopen retries ''GET'' (server req) 0 [] of
        (Inl e, _) \<Rightarrow> RequestException e
      | (Inr resp, _) \<Rightarrow> Responded resp)"

text \<open>A server that sends the listed answers in turn and then keeps sending the last one.\<close>

fun script :: "attempt \<Rightarrow> attempt list \<Rightarrow> nat \<Rightarrow> attempt" where
  "script a [] i = a"
| "script a (b # bs) 0 = a"
| "script a (b # bs) (Suc i) = script b bs i"

definition plain :: "int \<Rightarrow> string \<Rightarrow> attempt" where
  "plain status body =
     \<lparr>reply = \<lparr>status_code = status, headers = [], content = body, stream_break = None\<rparr>,
      retry_after = None\<rparr>"

subsection \<open>SECHttpClient\<close>

record SECHttpClient =
  user_agent :: string
  timeout :: int
  cache_ttl :: int
  enable_cache :: bool
  rate_limiter :: RateLimiter
  cache :: "SimpleCache option"
  session_headers :: "(string \<times> string) list"
  max_retries :: Retry

text \<open>
  The constructor. \<open>home\<close> is the user's home directory and \<open>default_headers\<close> the headers
  a fresh \<^verbatim>\<open>requests.Session\<close> starts with.
\<close>

definition SECHttpClient_init ::
  "pylib \<Rightarrow> string \<Rightarrow> (string \<times> string) list \<Rightarrow> string \<Rightarrow> real \<Rightarrow> int \<Rightarrow> int \<Rightarrow> bool \<Rightarrow> world
     \<Rightarrow> py_error + (SECHttpClient \<times> world)" where
  "SECHttpClient_init lib home default_headers ua max_requests_per_second tmo cache_ttl_seconds
       enable w =
     (case RateLimiter_init max_requests_per_second of
        Inl e \<Rightarrow> Inl e
      | Inr rl \<Rightarrow>
          (case (if enable
                 then (case SimpleCache_init lib home None w of
                         Inl e \<Rightarrow> Inl e
                       | Inr (sc, w') \<Rightarrow> Inr (Some sc, w'))
                 else Inr (None, w)) of
             Inl e \<Rightarrow> Inl e
           | Inr (sc, w') \<Rightarrow>
               Inr (\<lparr>user_agent = ua, timeout = tmo, cache_ttl = cache_ttl_seconds,
                     enable_cache = enable, rate_limiter = rl, cache = sc,
                     session_headers =
                       ci_update default_headers
                         [(''User-Agent'', ua),
                          (''Accept'', ''application/json, text/html, */*''),
                          (''Accept-Encoding'', ''gzip, deflate'')],
                     max_retries = retry_strategy\<rparr>, w')))"

text \<open>
  The clock readings one call observes: \<open>t_cache_get\<close> inside \<^verbatim>\<open>SimpleCache.get\<close>,
  \<open>t_admit\<close> and \<open>oversleep\<close> inside \<^verbatim>\<open>wait_if_needed\<close>, \<open>t_cache_set\<close> inside \<^verbatim>\<open>SimpleCache.set\<close>.
\<close>

record clock =
  t_cache_get :: real
  t_admit :: real
  oversleep :: real
  t_cache_set :: real

definition cache_key :: "pylib \<Rightarrow> string \<Rightarrow> (string \<times> json) list option \<Rightarrow> string" where
  "cache_key lib url params =
     url @ ''?'' @ json_dumps lib True (JObj (case params of None \<Rightarrow> [] | Some ps \<Rightarrow> ps))"

text \<open>The response built from a cached payload.\<close>

definition mock_response :: "pylib \<Rightarrow> json \<Rightarrow> response" where
  "mock_response lib cached_response =
     \<lparr>status_code = 200,
      headers = [(''Content-Type'', ''application/json'')],
      content = json_dumps lib False cached_response,
      stream_break = None\<rparr>"

text \<open>\<^verbatim>\<open>request_headers = self.session.headers.copy(); if headers: request_headers.update(headers)\<close>\<close>

definition prepare_headers :: "SECHttpClient \<Rightarrow> (string \<times> string) list option \<Rightarrow> (string \<times> string) list" where
  "prepare_headers c hdrs =
     (case hdrs of
        None \<Rightarrow> session_headers c
      | Some hs \<Rightarrow> if hs = [] then session_headers c else ci_update (session_headers c) hs)"

text \<open>\<^verbatim>\<open>raise_for_status()\<close> raises for the client and server error statuses.\<close>

definition raise_for_status :: "response \<Rightarrow> request_exception option" where
  "raise_for_status resp =
     (if 400 \<le> status_code resp \<and> status_code resp < 600 then Some (HTTPError (status_code resp))
      else None)"

text \<open>
  \<^verbatim>\<open>SECHttpClient.get\<close>. \<open>transport\<close> is \<^verbatim>\<open>self.session.get\<close>. The result is the response or
  the exception that leaves the method, with the client and the world as the call left
  them.
\<close>

definition client_get ::
  "pylib \<Rightarrow> (request \<Rightarrow> net_result) \<Rightarrow> clock \<Rightarrow> SECHttpClient \<Rightarrow> world \<Rightarrow> string
     \<Rightarrow> (string \<times> string) list option \<Rightarrow> (string \<times> json) list option \<Rightarrow> bool
     \<Rightarrow> (py_error + response) \<times> SECHttpClient \<times> world" where
  "client_get lib transport clk c w url hdrs params use_cache =
     (case (case (if use_cache then cache c else None) of
              None \<Rightarrow> (Inr JNull, w)
            | Some sc \<Rightarrow> cache_get lib sc (cache_key lib url params) (t_cache_get clk) w) of
        (Inl e, w1) \<Rightarrow> (Inl e, c, w1)
      | (Inr cached_response, w1) \<Rightarrow>
          if cached_response \<noteq> JNull then (Inr (mock_response lib cached_response), c, w1)
          else
            (case wait_if_needed (rate_limiter c) (t_admit clk) (oversleep clk) of
               (Inl e, rl) \<Rightarrow> (Inl e, c\<lparr>rate_limiter := rl\<rparr>, w1)
             | (Inr _, rl) \<Rightarrow>
                 let c1 = c\<lparr>rate_limiter := rl\<rparr>;
                     req = \<lparr>req_url = url, req_headers = prepare_headers c hdrs,
                            req_params = params, req_timeout = timeout c, req_stream = False\<rparr>;
                     w2 = w1\<lparr>net_log := net_log w1 @ [req]\<rparr>
                 in case transport req of
                      RequestException e \<Rightarrow> (Inl (RequestFailed e), c1, w2)
                    | Responded resp \<Rightarrow>
                        (case raise_for_status resp of
                           Some e \<Rightarrow> (Inl (RequestFailed e), c1, w2)
                         | None \<Rightarrow>
                             (case (if use_cache \<and> status_code resp = 200 then cache c else None) of
                                None \<Rightarrow> (Inr resp, c1, w2)
                              | Some sc \<Rightarrow>
                                  (case json_parse lib (content resp) of
                                     None \<Rightarrow> (Inr resp, c1, w2)
                                   | Some json_data \<Rightarrow>
                                       (Inr resp, c1,
                                        cache_set lib sc (cache_key lib url params) json_data
                                          (cache_ttl c) (t_cache_set clk) w2))))))"

text \<open>\<^verbatim>\<open>response.iter_content(chunk_size=n)\<close> over a body that is fully delivered.\<close>

function iter_content :: "nat \<Rightarrow> string \<Rightarrow> string list" where
  "iter_content n s = (if n = 0 \<or> s = [] then [] else take n s # iter_content n (drop n s))"
  by pat_completeness auto
termination
  by (relation "measure (\<lambda>(n, s). length s)") auto

text \<open>
  \<^verbatim>\<open>SECHttpClient.download\<close>. The file is opened for writing, which empties it, and the
  chunks are written as they arrive; when the stream breaks, what was written stays.
\<close>

definition download ::
  "pylib \<Rightarrow> (request \<Rightarrow> net_result) \<Rightarrow> clock \<Rightarrow> SECHttpClient \<Rightarrow> world \<Rightarrow> string \<Rightarrow> string \<Rightarrow> bool
     \<Rightarrow> (py_error + string) \<times> SECHttpClient \<times> world" where
  "download lib transport clk c w url dest_path use_cache =
     (if use_cache \<and> files w (path_str lib dest_path) \<noteq> None
      then (Inr (path_absolute lib dest_path), c, w)
      else
        (case mkdir_all (path_parents lib dest_path) w of
           Inl e \<Rightarrow> (Inl e, c, w)
         | Inr w1 \<Rightarrow>
             (case wait_if_needed (rate_limiter c) (t_admit clk) (oversleep clk) of
                (Inl e, rl) \<Rightarrow> (Inl e, c\<lparr>rate_limiter := rl\<rparr>, w1)
              | (Inr _, rl) \<Rightarrow>
                  let c1 = c\<lparr>rate_limiter := rl\<rparr>;
                      req = \<lparr>req_url = url, req_headers = session_headers c, req_params = None,
                             req_timeout = timeout c, req_stream = True\<rparr>;
                      w2 = w1\<lparr>net_log := net_log w1 @ [req]\<rparr>
                  in case transport req of
                       RequestException e \<Rightarrow> (Inl (DownloadFailed e), c1, w2)
                     | Responded resp \<Rightarrow>
                         (case raise_for_status resp of
                            Some e \<Rightarrow> (Inl (DownloadFailed e), c1, w2)
                          | None \<Rightarrow>
                              let chunks = iter_content 8192 (content resp);
                                  dest = path_str lib dest_path
                              in (case stream_break resp of
                                    None \<Rightarrow>
                                      (case write_file dest (concat chunks) w2 of
                                         Inl e \<Rightarrow> (Inl e, c1, w2)
                                       | Inr w3 \<Rightarrow> (Inr (path_absolute lib dest_path), c1, w3))
                                  | Some n \<Rightarrow>
                                      (case write_file dest (concat (take n chunks)) w2 of
                                         Inl e \<Rightarrow> (Inl e, c1, w2)
                                       | Inr w3 \<Rightarrow>
                                           (Inl (DownloadFailed (TransportError ''stream'')), c1, w3)))))))"

subsection \<open>Stand-ins for the library in concrete runs\<close>

text \<open>
  A library for evaluating the model on concrete inputs: the JSON texts it knows are
  listed in a table of values and their texts, the hash of a key is the key itself, and
  relative paths live in \<^verbatim>\<open>/work\<close>, where no directory has to be created.
\<close>

definition table_lib :: "(json \<times> string) list \<Rightarrow> pylib" where
  "table_lib table =
     \<lparr>md5_hexdigest = (\<lambda>key. key),
      json_text = (\<lambda>v. case map_of table v of None \<Rightarrow> [] | Some s \<Rightarrow> s),
      json_parse = (\<lambda>s. map_of (map (\<lambda>(v, s). (s, v)) table) s),
      path_str = (\<lambda>p. p),
      path_absolute = (\<lambda>p. ''/work/'' @ p),
      path_parents = (\<lambda>p. [])\<rparr>"

definition empty_world :: world where
  "empty_world = \<lparr>files = Map.empty, unwritable = (\<lambda>p. False), net_log = []\<rparr>"

definition noon :: clock where
  "noon = \<lparr>t_cache_get = 100, t_admit = 100, oversleep = 0, t_cache_set = 100\<rparr>"

text \<open>
  A client as the constructor builds it with its default arguments, the JSON texts used
  in the examples, and a server that answers every attempt with an HTML page.
\<close>

definition demo_client :: SECHttpClient where
  "demo_client =
     \<lparr>user_agent = ''flow_researcher bryan@example.com'', timeout = 30, cache_ttl = 3600,
      enable_cache = True,
      rate_limiter = \<lparr>max_rps = 10, min_interval = 1 / 10, request_times = []\<rparr>,
      cache = Some \<lparr>cache_dir = ''/home/u/.sec_tools_cache''\<rparr>,
      session_headers =
        [(''User-Agent'', ''flow_researcher bryan@example.com''),
         (''Accept-Encoding'', ''gzip, deflate''),
         (''Accept'', ''application/json, text/html, */*''),
         (''Connection'', ''keep-alive'')],
      max_retries = retry_strategy\<rparr>"

definition demo_lib :: pylib where
  "demo_lib =
     table_lib
       [(JObj [], ''{}''),
        (JNum 7, ''7''),
        (JArr [], ''[]''),
        (JObj [(''value'', JNum 7), (''expires_at'', JNum 110)], ''{value: 7, expires_at: 110}''),
        (JObj [(''value'', JNull), (''expires_at'', JNum 110)], ''{value: null, expires_at: 110}''),
        (JObj [(''a'', JNum 1), (''b'', JNum 2)], ''{a: 1, b: 2}'')]"

definition demo_path :: string where
  "demo_path = ''/home/u/.sec_tools_cache/u?{}.json''"

definition world_with :: "string \<Rightarrow> string \<Rightarrow> world" where
  "world_with path text = empty_world\<lparr>files := [path \<mapsto> Text text]\<rparr>"

definition html_server :: "request \<Rightarrow> nat \<Rightarrow> attempt" where
  "html_server req = script (plain 200 ''<html>'') []"

text \<open>A server that answers 503 first and then goes through the listed answers.\<close>

definition busy_server :: "attempt list \<Rightarrow> request \<Rightarrow> nat \<Rightarrow> attempt" where
  "busy_server rest req = script (plain 503 ''busy'') rest"

section \<open>Properties of the rate limiter\<close>













section \<open>Evaluating the model on concrete inputs\<close>

lemmas model_defs = client_get_def cache_get_def cache_set_def cache_key_def json_dumps_def
  get_cache_path_def unlink_def write_file_def wait_if_needed_def prepare_headers_def
  raise_for_status_def mock_response_def session_get_def urlopen.simps is_retry_def
  is_method_retryable_def is_exhausted_def increment_def sleep_for_def get_backoff_time_def
  retry_strategy_def plain_def upper_def upper_char_def lower_def lower_char_def Let_def
  download_def

lemmas demo_defs = demo_client_def demo_lib_def demo_path_def world_with_def html_server_def
  busy_server_def table_lib_def empty_world_def noon_def

text \<open>The constructor, called with its default arguments, builds \<open>demo_client\<close>.\<close>

lemma demo_client_init:
  "SECHttpClient_init demo_lib ''/home/u''
      [(''User-Agent'', ''python-requests/2.31.0''), (''Accept-Encoding'', ''gzip, deflate''),
       (''Accept'', ''*/*''), (''Connection'', ''keep-alive'')]
      ''flow_researcher bryan@example.com'' 10 30 3600 True empty_world
   = Inr (demo_client, empty_world\<lparr>files := [''/home/u/.sec_tools_cache'' \<mapsto> Dir]\<rparr>)"
  by (simp add: SECHttpClient_init_def RateLimiter_init_def SimpleCache_init_def demo_defs
        lower_def lower_char_def Let_def)

section \<open>Properties of the cache\<close>

lemma cache_get_fresh:
  assumes "files w (get_cache_path lib sc key) = Some (Text s)"
      and "json_parse lib s = Some (JObj kvs)"
      and "map_of kvs ''expires_at'' = Some (JNum e)"
      and "now \<le> e"
  shows "cache_get lib sc key now w =
           (Inr (case map_of kvs ''value'' of None \<Rightarrow> JNull | Some v \<Rightarrow> v), w)"
  using assms by (simp add: cache_get_def Let_def)






text \<open>
  C4 fails on the code. A stored entry that is valid JSON but not an object, here the
  text \<^verbatim>\<open>[]\<close>, passes \<^verbatim>\<open>json.load\<close>; \<^verbatim>\<open>cached.get\<close> then raises \<^verbatim>\<open>AttributeError\<close>, which the
  handler for \<^verbatim>\<open>JSONDecodeError\<close> and \<^verbatim>\<open>IOError\<close> does not catch. The entry is not deleted,
  \<^verbatim>\<open>SimpleCache.get\<close> raises, and so does the \<^verbatim>\<open>SECHttpClient.get\<close> that consulted it,
  before any request is sent.
\<close>

theorem corrupt_entry_raises:
  "cache_get demo_lib \<lparr>cache_dir = ''/home/u/.sec_tools_cache''\<rparr> ''u?{}'' 100
      (world_with demo_path ''[]'')
     = (Inl AttributeError, world_with demo_path ''[]'') \<and>
   client_get demo_lib (session_get retry_strategy html_server) noon demo_client
      (world_with demo_path ''[]'') ''u'' None None True
     = (Inl AttributeError, demo_client, world_with demo_path ''[]'')"
  by (simp add: model_defs demo_defs)

text \<open>
  A dictionary of the right shape whose \<^verbatim>\<open>expires_at\<close> is not a number fails in the same
  way, with \<^verbatim>\<open>TypeError\<close> from the comparison.
\<close>

lemma cache_get_bad_expiry:
  assumes "files w (get_cache_path lib sc key) = Some (Text s)"
      and "json_parse lib s = Some (JObj kvs)"
      and "map_of kvs ''expires_at'' = Some (JStr x)"
  shows "cache_get lib sc key now w = (Inl TypeError, w)"
  using assms by (simp add: cache_get_def Let_def)

text \<open>An entry that cannot be opened or is not JSON is removed and read as absent.\<close>

lemma cache_get_undecodable:
  assumes "files w (get_cache_path lib sc key) = Some f"
      and "f \<noteq> Dir"
      and "json_load lib f = Inl err"
  shows "cache_get lib sc key now w =
           (Inr JNull, w\<lparr>files := (files w)(get_cache_path lib sc key := None)\<rparr>)"
  using assms by (cases f) (simp_all add: cache_get_def Let_def unlink_def)

section \<open>Properties of the cache key\<close>

lemma sort_key_fst_unique:
  assumes "distinct (map fst xs)" "distinct (map fst ys)" "set xs = set ys"
  shows "sort_key fst xs = sort_key fst (ys :: (string \<times> 'a) list)"
proof (rule map_sorted_distinct_set_unique [where f = fst])
  show "inj_on fst (set (sort_key fst xs) \<union> set (sort_key fst ys))"
    using assms by (auto simp: inj_on_def dest: eq_key_imp_eq_value)
  show "sorted (map fst (sort_key fst xs))" "sorted (map fst (sort_key fst ys))" by simp_all
  show "distinct (map fst (sort_key fst xs))" using assms(1) by (simp add: distinct_map)
  show "distinct (map fst (sort_key fst ys))" using assms(2) by (simp add: distinct_map)
  show "set (sort_key fst xs) = set (sort_key fst ys)" using assms(3) by simp
qed

text \<open>
  C6. Two parameter dictionaries that hold the same value under the same keys, whatever
  the order in which their items were inserted, give the same cache key and hence the
  same cache file. A dictionary is the list of its items, so its keys are distinct.
\<close>

theorem cache_key_order_independent:
  assumes "distinct (map fst p1)" "distinct (map fst p2)" "map_of p1 = map_of p2"
  shows "cache_key lib url (Some p1) = cache_key lib url (Some p2) \<and>
         get_cache_path lib sc (cache_key lib url (Some p1))
           = get_cache_path lib sc (cache_key lib url (Some p2))"
proof -
  let ?f = "\<lambda>(k, v). (k, sort_items v)"
  from assms have set_eq: "set p1 = set p2" by (simp add: map_of_inject_set)
  have fst_f: "map fst (map ?f p) = map fst p" for p :: "(string \<times> json) list"
    by (induction p) auto
  have "sort_key fst (map ?f p1) = sort_key fst (map ?f p2)"
  proof (rule sort_key_fst_unique)
    show "distinct (map fst (map ?f p1))" using assms(1) by (simp only: fst_f)
    show "distinct (map fst (map ?f p2))" using assms(2) by (simp only: fst_f)
    show "set (map ?f p1) = set (map ?f p2)" using set_eq by simp
  qed
  then have "sort_items (JObj p1) = sort_items (JObj p2)" by simp
  then show ?thesis by (simp add: cache_key_def json_dumps_def)
qed

theorem cache_key_order_independent_witness:
  "cache_key demo_lib ''u'' (Some [(''a'', JNum 1), (''b'', JNum 2)]) = ''u?{a: 1, b: 2}'' \<and>
   cache_key demo_lib ''u'' (Some [(''b'', JNum 2), (''a'', JNum 1)]) = ''u?{a: 1, b: 2}'' \<and>
   get_cache_path demo_lib \<lparr>cache_dir = ''/c''\<rparr>
       (cache_key demo_lib ''u'' (Some [(''a'', JNum 1), (''b'', JNum 2)]))
     = get_cache_path demo_lib \<lparr>cache_dir = ''/c''\<rparr>
       (cache_key demo_lib ''u'' (Some [(''b'', JNum 2), (''a'', JNum 1)]))"
proof -
  have h1: "distinct (map fst [(''a'', JNum 1), (''b'', JNum 2)])" by simp
  have h2: "distinct (map fst [(''b'', JNum 2), (''a'', JNum 1)])" by simp
  have h3: "map_of [(''a'', JNum 1), (''b'', JNum 2)] = map_of [(''b'', JNum 2), (''a'', JNum 1)]"
    by (rule ext) simp
  have k: "cache_key demo_lib ''u'' (Some [(''a'', JNum 1), (''b'', JNum 2)]) = ''u?{a: 1, b: 2}''"
    by (simp add: cache_key_def json_dumps_def demo_lib_def table_lib_def)
  from cache_key_order_independent [OF h1 h2 h3, of demo_lib "''u''" "\<lparr>cache_dir = ''/c''\<rparr>"] k
  show ?thesis by simp
qed

text \<open>
  The same holds when the dictionaries differ in the order of items at any depth: the
  keys of nested objects are sorted as well.
\<close>

lemma same_items_sort_items:
  "wf_json a \<Longrightarrow> wf_json b \<Longrightarrow> same_items a b \<Longrightarrow> sort_items a = sort_items b"
proof (induction a arbitrary: b)
  case (JArr xs)
  show ?case
  proof (cases b)
    case (JArr ys)
    with JArr.prems have "list_all2 same_items xs ys" "list_all wf_json xs" "list_all wf_json ys"
      by simp_all
    then have "map sort_items xs = map sort_items ys"
      using JArr.IH
    proof (induction xs ys rule: list_all2_induct)
      case Nil
      then show ?case by simp
    next
      case (Cons x xs y ys)
      then show ?case by simp
    qed
    with JArr show ?thesis by simp
  qed (use JArr.prems in auto)
next
  case (JObj xs)
  show ?case
  proof (cases b)
    case b: (JObj ys)
    let ?f = "\<lambda>(k, v). (k, sort_items v)"
    from JObj.prems b have dx: "distinct (map fst xs)" and dy: "distinct (map fst ys)"
      and wx: "\<And>k v. (k, v) \<in> set xs \<Longrightarrow> wf_json v"
      and wy: "\<And>k v. (k, v) \<in> set ys \<Longrightarrow> wf_json v"
      and keys: "fst ` set xs = fst ` set ys"
      and every: "list_all (\<lambda>(k, v). case map_of ys k of None \<Rightarrow> False | Some v' \<Rightarrow> same_items v v') xs"
      by (auto simp: list_all_iff)
    have vals: "\<exists>v'. map_of ys k = Some v' \<and> same_items v v'" if "(k, v) \<in> set xs" for k v
    proof -
      from every that have "case map_of ys k of None \<Rightarrow> False | Some v' \<Rightarrow> same_items v v'"
        by (auto simp: list_all_iff)
      then show ?thesis by (cases "map_of ys k") auto
    qed
    have same: "sort_items v = sort_items v'" if "(k, v) \<in> set xs" "(k, v') \<in> set ys" for k v v'
    proof -
      from vals [OF that(1)] obtain v'' where "map_of ys k = Some v''" "same_items v v''" by blast
      moreover from dy that(2) have "map_of ys k = Some v'" by simp
      ultimately have "same_items v v'" by simp
      with JObj.IH [of "(k, v)" v v'] that wx wy show ?thesis by auto
    qed
    have fst_f: "map fst (map ?f p) = map fst p" for p :: "(string \<times> json) list"
      by (induction p) auto
    have "set (map ?f xs) = set (map ?f ys)"
    proof (intro set_eqI iffI)
      fix p assume "p \<in> set (map ?f xs)"
      then obtain k v where kv: "(k, v) \<in> set xs" "p = (k, sort_items v)" by auto
      from vals [OF kv(1)] obtain v' where "map_of ys k = Some v'" by blast
      then have "(k, v') \<in> set ys" by (rule map_of_SomeD)
      with same [OF kv(1) this] kv(2) show "p \<in> set (map ?f ys)" by force
    next
      fix p assume "p \<in> set (map ?f ys)"
      then obtain k v' where kv: "(k, v') \<in> set ys" "p = (k, sort_items v')" by auto
      then have "k \<in> fst ` set xs" using keys by force
      then obtain v where "(k, v) \<in> set xs" by auto
      with same [OF this kv(1)] kv(2) show "p \<in> set (map ?f xs)" by force
    qed
    moreover have "distinct (map fst (map ?f xs))" "distinct (map fst (map ?f ys))"
      using dx dy by (simp_all only: fst_f)
    ultimately have "sort_key fst (map ?f xs) = sort_key fst (map ?f ys)"
      by (intro sort_key_fst_unique)
    with b show ?thesis by simp
  qed (use JObj.prems in auto)
qed auto

lemma cache_key_nested_order_independent:
  assumes "wf_json (JObj p1)" "wf_json (JObj p2)" "same_items (JObj p1) (JObj p2)"
  shows "cache_key lib url (Some p1) = cache_key lib url (Some p2)"
  using same_items_sort_items [OF assms] by (simp add: cache_key_def json_dumps_def)

section \<open>Properties of the client\<close>

lemma net_log_cache_get:
  "cache_get lib sc key now w0 = (r, w1) \<Longrightarrow> net_log w1 = net_log w0"
  by (auto simp: cache_get_def Let_def unlink_def
           split: option.splits sum.splits fs_node.splits bool.splits)

lemma net_log_cache_set:
  "net_log (cache_set lib sc key v ttl now w0) = net_log w0"
  by (auto simp: cache_set_def Let_def write_file_def)

text \<open>A call sends at most one request, the one built from its arguments.\<close>

lemma client_get_request:
  assumes "client_get lib transport clk c w url hdrs params use_cache = (res, c', w')"
  shows "(net_log w' = net_log w \<or>
          net_log w' = net_log w @ [\<lparr>req_url = url, req_headers = prepare_headers c hdrs,
             req_params = params, req_timeout = timeout c, req_stream = False\<rparr>]) \<and>
         session_headers c' = session_headers c \<and> user_agent c' = user_agent c"
  using assms
  by (auto simp: client_get_def Let_def net_log_cache_set
           split: prod.splits sum.splits net_result.splits option.splits if_splits
           dest: net_log_cache_get)

lemma ci_get_ci_set:
  "ci_get k (ci_set k' v hs) = (if lower k' = lower k then Some v else ci_get k hs)"
  by (induction hs) auto

lemma ci_get_append:
  "ci_get k (xs @ ys) = (case ci_get k xs of None \<Rightarrow> ci_get k ys | Some v \<Rightarrow> Some v)"
  by (induction xs) auto

lemma ci_get_ci_update:
  "ci_get k (ci_update hs new) =
     (case ci_get k (rev new) of None \<Rightarrow> ci_get k hs | Some v \<Rightarrow> Some v)"
proof (induction new arbitrary: hs)
  case Nil
  then show ?case by simp
next
  case (Cons kv new)
  obtain k' v' where kv: "kv = (k', v')" by (cases kv)
  show ?case
    by (simp add: kv Cons.IH ci_get_append ci_get_ci_set split: option.splits)
qed

lemma ci_get_prepare_headers:
  "ci_get k (prepare_headers c hdrs) =
     (case ci_get k (rev (case hdrs of None \<Rightarrow> [] | Some hs \<Rightarrow> hs)) of
        None \<Rightarrow> ci_get k (session_headers c)
      | Some v \<Rightarrow> Some v)"
  by (cases hdrs) (simp_all add: prepare_headers_def ci_get_ci_update)

text \<open>
  C5, as the code has it. Take a client whose session headers carry its own
  \<^verbatim>\<open>User-Agent\<close>, as the constructor leaves them. Whenever a call of \<^verbatim>\<open>get\<close> sends a
  request, that request has a \<^verbatim>\<open>User-Agent\<close> header: it is the client's own string when
  the caller's headers name no \<^verbatim>\<open>User-Agent\<close> in any letter case, and otherwise the value
  the caller gave last, which replaces the client's, empty or not. The call leaves the
  session headers as they were.
\<close>

theorem get_sends_user_agent:
  assumes "ci_get ''User-Agent'' (session_headers c) = Some (user_agent c)"
      and "client_get lib transport clk c w url hdrs params use_cache = (res, c', w')"
      and "net_log w' \<noteq> net_log w"
  shows "\<exists>req. net_log w' = net_log w @ [req] \<and>
           ci_get ''User-Agent'' (req_headers req) =
             (case ci_get ''User-Agent'' (rev (case hdrs of None \<Rightarrow> [] | Some hs \<Rightarrow> hs)) of
                None \<Rightarrow> Some (user_agent c)
              | Some v \<Rightarrow> Some v) \<and>
           session_headers c' = session_headers c \<and> user_agent c' = user_agent c"
proof -
  let ?req = "\<lparr>req_url = url, req_headers = prepare_headers c hdrs,
             req_params = params, req_timeout = timeout c, req_stream = False\<rparr>"
  from client_get_request [OF assms(2)] assms(3)
  have sent: "net_log w' = net_log w @ [?req]"
    and same: "session_headers c' = session_headers c" "user_agent c' = user_agent c"
    by auto
  have "ci_get ''User-Agent'' (req_headers ?req) =
          (case ci_get ''User-Agent'' (rev (case hdrs of None \<Rightarrow> [] | Some hs \<Rightarrow> hs)) of
             None \<Rightarrow> Some (user_agent c)
           | Some v \<Rightarrow> Some v)"
    by (simp add: ci_get_prepare_headers assms(1) split: option.splits)
  with sent same show ?thesis by blast
qed

text \<open>A call that passes an \<^verbatim>\<open>Accept\<close> header of its own is sent with the client's identity.\<close>

theorem get_sends_user_agent_witness:
  "\<exists>req. net_log (snd (snd (client_get demo_lib (session_get retry_strategy html_server) noon
              demo_client empty_world ''u'' (Some [(''accept'', ''text/html'')]) None True)))
            = net_log empty_world @ [req] \<and>
         ci_get ''User-Agent'' (req_headers req) = Some ''flow_researcher bryan@example.com''"
proof -
  let ?run = "client_get demo_lib (session_get retry_strategy html_server) noon
              demo_client empty_world ''u'' (Some [(''accept'', ''text/html'')]) None True"
  have h1: "ci_get ''User-Agent'' (session_headers demo_client) = Some (user_agent demo_client)"
    by (simp add: demo_client_def lower_def)
  have h2: "?run = (fst ?run, fst (snd ?run), snd (snd ?run))" by simp
  have h3: "net_log (snd (snd ?run)) \<noteq> net_log empty_world"
    by (simp add: model_defs demo_defs)
  have v: "(case ci_get ''User-Agent''
                  (rev (case Some [(''accept'', ''text/html'')] of None \<Rightarrow> [] | Some hs \<Rightarrow> hs)) of
              None \<Rightarrow> Some (user_agent demo_client)
            | Some v \<Rightarrow> Some v) = Some ''flow_researcher bryan@example.com''"
    by (simp add: demo_client_def lower_def lower_char_def)
  from get_sends_user_agent [OF h1 h2 h3]
  obtain req where "net_log (snd (snd ?run)) = net_log empty_world @ [req]"
    and "ci_get ''User-Agent'' (req_headers req) =
           (case ci_get ''User-Agent''
                  (rev (case Some [(''accept'', ''text/html'')] of None \<Rightarrow> [] | Some hs \<Rightarrow> hs)) of
              None \<Rightarrow> Some (user_agent demo_client)
            | Some v \<Rightarrow> Some v)"
    by blast
  then show ?thesis unfolding v by blast
qed

text \<open>
  C5 as stated fails: a caller that passes an empty \<^verbatim>\<open>User-Agent\<close> has it sent in place of
  the client's identifying string.
\<close>

theorem user_agent_override_counterexample:
  "net_log (snd (snd (client_get demo_lib (session_get retry_strategy html_server) noon
       demo_client empty_world ''u'' (Some [(''User-Agent'', [])]) None True)))
     = [\<lparr>req_url = ''u'',
         req_headers =
           [(''User-Agent'', []),
            (''Accept-Encoding'', ''gzip, deflate''),
            (''Accept'', ''application/json, text/html, */*''),
            (''Connection'', ''keep-alive'')],
         req_params = None, req_timeout = 30, req_stream = False\<rparr>] \<and>
   ci_get ''User-Agent''
       [(''User-Agent'', []),
        (''Accept-Encoding'', ''gzip, deflate''),
        (''Accept'', ''application/json, text/html, */*''),
        (''Connection'', ''keep-alive'')]
     = Some []"
  by (simp add: model_defs demo_defs)

text \<open>
  C7, as the code has it. With \<^verbatim>\<open>use_cache\<close> set and a cache present, let the file of the
  computed key hold a record whose \<^verbatim>\<open>expires_at\<close> is not in the past and whose \<^verbatim>\<open>value\<close> is
  not \<^verbatim>\<open>null\<close>. Then \<^verbatim>\<open>get\<close> returns the response built from that value, and the client,
  with the timestamps of its rate limiter, and the world, with its files and its log of
  requests, are exactly as before the call.
\<close>

theorem get_cache_hit_frame:
  assumes "cache c = Some sc"
      and "files w (get_cache_path lib sc (cache_key lib url params)) = Some (Text s)"
      and "json_parse lib s = Some (JObj kvs)"
      and "map_of kvs ''expires_at'' = Some (JNum e)"
      and "t_cache_get clk \<le> e"
      and "map_of kvs ''value'' = Some v"
      and "v \<noteq> JNull"
  shows "client_get lib transport clk c w url hdrs params True = (Inr (mock_response lib v), c, w)"
  using cache_get_fresh [OF assms(2,3,4,5)] assms(1,6,7) by (simp add: client_get_def)

theorem get_cache_hit_frame_witness:
  "client_get demo_lib (session_get retry_strategy html_server) noon demo_client
      (world_with demo_path ''{value: 7, expires_at: 110}'') ''u'' None None True
   = (Inr \<lparr>status_code = 200, headers = [(''Content-Type'', ''application/json'')],
           content = ''7'', stream_break = None\<rparr>,
      demo_client, world_with demo_path ''{value: 7, expires_at: 110}'')"
proof -
  let ?w = "world_with demo_path ''{value: 7, expires_at: 110}''"
  let ?kvs = "[(''value'', JNum 7), (''expires_at'', JNum 110)]"
  have h1: "cache demo_client = Some \<lparr>cache_dir = ''/home/u/.sec_tools_cache''\<rparr>"
    by (simp add: demo_client_def)
  have h2: "files ?w (get_cache_path demo_lib \<lparr>cache_dir = ''/home/u/.sec_tools_cache''\<rparr>
              (cache_key demo_lib ''u'' None)) = Some (Text ''{value: 7, expires_at: 110}'')"
    by (simp add: model_defs demo_defs)
  have h3: "json_parse demo_lib ''{value: 7, expires_at: 110}'' = Some (JObj ?kvs)"
    by (simp add: demo_lib_def table_lib_def)
  have h4: "map_of ?kvs ''expires_at'' = Some (JNum 110)" by simp
  have h5: "t_cache_get noon \<le> 110" by (simp add: noon_def)
  have h6: "map_of ?kvs ''value'' = Some (JNum 7)" by simp
  have h7: "JNum 7 \<noteq> JNull" by simp
  from get_cache_hit_frame [OF h1 h2 h3 h4 h5 h6 h7] show ?thesis
    by (simp add: mock_response_def json_dumps_def demo_lib_def table_lib_def)
qed

text \<open>
  C7 as stated fails for a cached payload that is \<^verbatim>\<open>null\<close>, which \<^verbatim>\<open>get\<close> itself stores
  when a 200 response has the body \<^verbatim>\<open>null\<close>: \<^verbatim>\<open>SimpleCache.get\<close> returns \<^verbatim>\<open>None\<close> for the
  unexpired entry, the client takes it for a miss, appends a timestamp to the limiter
  and sends the request.
\<close>

theorem null_payload_counterexample:
  "client_get demo_lib (session_get retry_strategy html_server) noon demo_client
      (world_with demo_path ''{value: null, expires_at: 110}'') ''u'' None None True
   = (Inr (reply (plain 200 ''<html>'')),
      demo_client\<lparr>rate_limiter := \<lparr>max_rps = 10, min_interval = 1 / 10, request_times = [100]\<rparr>\<rparr>,
      (world_with demo_path ''{value: null, expires_at: 110}'')
        \<lparr>net_log := [\<lparr>req_url = ''u'', req_headers = session_headers demo_client,
                        req_params = None, req_timeout = 30, req_stream = False\<rparr>]\<rparr>)"
  by (simp add: model_defs demo_defs)

text \<open>
  C8. When \<^verbatim>\<open>use_cache\<close> is set and the destination exists, whatever it holds, \<^verbatim>\<open>download\<close>
  returns its absolute path and changes nothing: the limiter has admitted nothing, the
  log of requests has not grown, and no file was touched.
\<close>

theorem download_existing:
  assumes "files w (path_str lib dest_path) \<noteq> None"
  shows "download lib transport clk c w url dest_path True
           = (Inr (path_absolute lib dest_path), c, w)"
  using assms by (simp add: download_def)

theorem download_existing_witness:
  "download demo_lib (session_get retry_strategy html_server) noon demo_client
      (world_with ''company.idx'' ''stale'') ''u'' ''company.idx'' True
   = (Inr ''/work/company.idx'', demo_client, world_with ''company.idx'' ''stale'')"
proof -
  have h: "files (world_with ''company.idx'' ''stale'') (path_str demo_lib ''company.idx'') \<noteq> None"
    by (simp add: demo_defs)
  from download_existing [OF h] show ?thesis
    by (simp add: demo_lib_def table_lib_def)
qed

text \<open>
  C9. A \<^verbatim>\<open>get\<close> with \<^verbatim>\<open>use_cache=False\<close> leaves every file as it was, and what it returns
  and does is the same whatever the files hold: replacing the files of the world by any
  others changes neither the result nor the client nor the requests sent.
\<close>

theorem get_without_cache:
  "files (snd (snd (client_get lib transport clk c w url hdrs params False))) = files w \<and>
   fst (client_get lib transport clk c (w\<lparr>files := fs\<rparr>) url hdrs params False)
     = fst (client_get lib transport clk c w url hdrs params False) \<and>
   fst (snd (client_get lib transport clk c (w\<lparr>files := fs\<rparr>) url hdrs params False))
     = fst (snd (client_get lib transport clk c w url hdrs params False)) \<and>
   snd (snd (client_get lib transport clk c (w\<lparr>files := fs\<rparr>) url hdrs params False))
     = (snd (snd (client_get lib transport clk c w url hdrs params False)))\<lparr>files := fs\<rparr>"
  by (simp add: client_get_def Let_def
           split: prod.splits sum.splits net_result.splits option.splits)

text \<open>
  C10. When \<^verbatim>\<open>get\<close> is served from the cache, that is, \<^verbatim>\<open>use_cache\<close> is set, a cache is
  present and \<^verbatim>\<open>SimpleCache.get\<close> returns a payload other than \<^verbatim>\<open>None\<close>, the response has
  status 200, the single header \<^verbatim>\<open>Content-Type: application/json\<close>, and as body the
  \<^verbatim>\<open>json.dumps\<close> of the payload. Nothing of the response that was cached enters it.
\<close>

theorem get_served_from_cache:
  assumes "cache c = Some sc"
      and "cache_get lib sc (cache_key lib url params) (t_cache_get clk) w = (Inr v, w1)"
      and "v \<noteq> JNull"
  shows "\<exists>r. fst (client_get lib transport clk c w url hdrs params True) = Inr r \<and>
             status_code r = 200 \<and>
             headers r = [(''Content-Type'', ''application/json'')] \<and>
             ci_get ''content-type'' (headers r) = Some ''application/json'' \<and>
             content r = json_dumps lib False v"
  using assms by (simp add: client_get_def mock_response_def lower_def lower_char_def)

theorem get_served_from_cache_witness:
  "\<exists>r. fst (client_get demo_lib (session_get retry_strategy html_server) noon demo_client
             (world_with demo_path ''{value: 7, expires_at: 110}'') ''u'' None None True) = Inr r \<and>
       status_code r = 200 \<and>
       headers r = [(''Content-Type'', ''application/json'')] \<and>
       ci_get ''content-type'' (headers r) = Some ''application/json'' \<and>
       content r = ''7''"
proof -
  let ?w = "world_with demo_path ''{value: 7, expires_at: 110}''"
  let ?sc = "\<lparr>cache_dir = ''/home/u/.sec_tools_cache''\<rparr>"
  have h1: "cache demo_client = Some ?sc"
    by (simp add: demo_client_def)
  have h2: "cache_get demo_lib ?sc (cache_key demo_lib ''u'' None) (t_cache_get noon) ?w
              = (Inr (JNum 7), ?w)"
    by (simp add: model_defs demo_defs)
  have h3: "JNum 7 \<noteq> JNull" by simp
  have "json_dumps demo_lib False (JNum 7) = ''7''"
    by (simp add: json_dumps_def demo_lib_def table_lib_def)
  with get_served_from_cache [OF h1 h2 h3] show ?thesis by simp
qed

section \<open>Properties of the retry policy\<close>



lemma urlopen_no_retry:
  "\<not> is_retry r verb (status_code (reply (server i))) (retry_after (server i) \<noteq> None) \<Longrightarrow>
   urlopen r verb server i sleeps = (Inr (reply (server i)), Suc i, sleeps)"
  by (subst urlopen.simps) (simp add: Let_def)



end
